theory Spec2Isabelle
  imports Complex_Main
begin

section \<open>DXF-Import: fidelity resolution and tessellation\<close>

text \<open>
  A shallow embedding of \<^verbatim>\<open>get_hifi_geometry\<close> (importer.py) and of
  \<^verbatim>\<open>lines_to_points\<close>, \<^verbatim>\<open>arc_to_lines\<close>, \<^verbatim>\<open>ellipse_to_arcs\<close> and
  \<^verbatim>\<open>convert_to\<close> (geometry_to_line.py).

  Conventions of the embedding:
  \<^item> a Python \<^verbatim>\<open>float\<close> is a \<^typ>\<open>real\<close>: rounding is not modelled, a division whose
    divisor is zero raises \<^verbatim>\<open>ZeroDivisionError\<close>;
  \<^item> a segment count (\<^verbatim>\<open>num_segments\<close>) is a Python \<^verbatim>\<open>int\<close>, modelled as \<^typ>\<open>int\<close>;
  \<^item> a tuple of floats is a \<^typ>\<open>real list\<close>, a geometry item
    \<^verbatim>\<open>(name, [tuple, ...])\<close> is a pair of a \<^typ>\<open>string\<close> and a list of such lists;
  \<^item> every \<^verbatim>\<open>raise\<close> and every failing primitive is a value \<open>Inl e\<close> of a sum type;
  \<^item> \<^verbatim>\<open>logging.warning\<close> appends its message to a log that is returned with the
    result.
\<close>

subsection \<open>Errors and primitives of the host language\<close>

datatype py_error =
    InvalidUnits          \<comment> \<open>\<^verbatim>\<open>raise Exception('Invalid Units {}', units)\<close>\<close>
  | ZeroDivisionError
  | TypeError
  | IndexError
  | ValueError
  | UnboundLocalError

type_synonym TGeometryItem = "string \<times> real list list"
type_synonym TGeometryList = "TGeometryItem list"

text \<open>\<^verbatim>\<open>xs.index(x)\<close>: the first position of \<open>x\<close>, \<open>None\<close> where Python raises ValueError.\<close>

fun index_of :: "'a list \<Rightarrow> 'a \<Rightarrow> nat option" where
  "index_of [] x = None"
| "index_of (y # ys) x =
     (if y = x then Some 0 else (case index_of ys x of None \<Rightarrow> None | Some i \<Rightarrow> Some (Suc i)))"

subsection \<open>importer.py: get-hifi-geometry\<close>

definition geometries :: "string list" where
  "geometries = [''POINT'', ''LINE'', ''ARC'', ''ELLIPSE'', ''SPLINE'', ''LWPOLYLINE'']"

text \<open>
  The result is a kind name, or Python's empty list (\<open>None\<close> here) when no kind was
  found. The two special cases return only inside their branches: when none of the branches
  of a special case fires, control falls through to the loop over the kinds below
  \<open>geometry\<close>, from the highest index down to 0.
\<close>

definition get_hifi_geometry :: "string \<Rightarrow> string list \<Rightarrow> py_error + string option" where
  "get_hifi_geometry geometry allowedtypes =
     (if geometry = ''SPLINE'' \<and> ''LINE'' \<in> set allowedtypes then Inr (Some ''LINE'')
      else if geometry = ''SPLINE'' \<and> ''POINT'' \<in> set allowedtypes then Inr (Some ''POINT'')
      else if geometry = ''LWPOLYLINE'' \<and> ''ARC'' \<in> set allowedtypes \<and> ''LINE'' \<in> set allowedtypes
        then Inr (Some ''ARC'')
      else if geometry = ''LWPOLYLINE'' \<and> ''ARC'' \<notin> set allowedtypes \<and> ''LINE'' \<in> set allowedtypes
        then Inr (Some ''LINE'')
      else if geometry = ''LWPOLYLINE'' \<and> ''POINT'' \<in> set allowedtypes then Inr (Some ''POINT'')
      else (case index_of geometries geometry of
              None \<Rightarrow> Inl ValueError
            | Some i \<Rightarrow> Inr (find (\<lambda>g. g \<in> set allowedtypes) (rev (take i geometries)))))"

subsection \<open>geometry-to-line.py: units and helpers\<close>

definition CONVERSION_FACTORS :: "real list" where
  "CONVERSION_FACTORS =
     [1.0, 3.9370079 * 10 ^ 5, 3.2808399 * 10 ^ 6, 6.2137119 * 10 ^ 10, 1.0 * 10 ^ 3,
      1.0 * 10 ^ 4, 1.0 * 10 ^ 6, 1.0 * 10 ^ 9, 39.37007874015748,
      39.37007874015748 * 10 ^ 3, 1.093613 * 10 ^ 6, 1.0 * 10 ^ 4, 1.0 * 10 ^ 3, 1.0,
      1.0 * 10 ^ 5, 1.0 * 10 ^ 7, 1.0 * 10 ^ 8, 1.0 * 10 ^ 15, 6.6845871226706 * 10 ^ 18,
      1.0570008340246 * 10 ^ 22, 3.2407792700054 * 10 ^ 23, 3.2808399 * 10 ^ 6,
      3.9370079 * 10 ^ 5, 1.093613 * 10 ^ 6, 6.2137119 * 10 ^ 10]"

definition UNIT_TABLE :: "string list" where
  "UNIT_TABLE =
     [''in'', ''ft'', ''mi'', ''mm'', ''cm'', ''m'', ''km'', ''ui'', ''mil'', ''yd'', ''a'',
      ''nm'', ''um'', ''dm'', ''dam'', ''hm'', ''gm'', ''au'', ''ly'', ''pc'', ''usft'',
      ''usin'', ''usyd'', ''usmi'']"

definition NUM_SEGMENTS :: int where
  "NUM_SEGMENTS = 10"

text \<open>
  The unit check made at the head of every loop body:
  \<^verbatim>\<open>CONVERSION_FACTORS[UNIT_TABLE.index(units)+1]\<close> for a known unit, the exception
  otherwise. The table has 24 entries and the factors 25, so the read is in range.
\<close>

definition conversion_factor :: "string \<Rightarrow> py_error + real" where
  "conversion_factor units =
     (case index_of UNIT_TABLE units of
        None \<Rightarrow> Inl InvalidUnits
      | Some i \<Rightarrow> Inr (CONVERSION_FACTORS ! (i + 1)))"

text \<open>\<^verbatim>\<open>str(n)\<close> for the non-negative indices that the f-strings print.\<close>

definition digit_char :: "nat \<Rightarrow> char" where
  "digit_char d = ''0123456789'' ! d"

fun str_nat :: "nat \<Rightarrow> string" where
  "str_nat n = (if n < 10 then [digit_char n] else str_nat (n div 10) @ [digit_char (n mod 10)])"

declare str_nat.simps [simp del]

definition radians :: "real \<Rightarrow> real" where
  "radians d = d * pi / 180"

definition degrees :: "real \<Rightarrow> real" where
  "degrees r = r * 180 / pi"

text \<open>\<^verbatim>\<open>math.atan2(y, x)\<close>, the angle of the point \<open>(x, y)\<close> in \<open>(-pi, pi]\<close>.\<close>

definition atan2 :: "real \<Rightarrow> real \<Rightarrow> real" where
  "atan2 y x =
     (if 0 < x then arctan (y / x)
      else if x < 0 then (if 0 \<le> y then arctan (y / x) + pi else arctan (y / x) - pi)
      else if 0 < y then pi / 2
      else if y < 0 then - (pi / 2)
      else 0)"

text \<open>\<^verbatim>\<open>int(x)\<close> on a float truncates towards zero.\<close>

definition py_int :: "real \<Rightarrow> int" where
  "py_int x = (if 0 \<le> x then \<lfloor>x\<rfloor> else \<lceil>x\<rceil>)"

text \<open>The first two components of a tuple, \<^verbatim>\<open>t[0]\<close> and \<^verbatim>\<open>t[1]\<close>.\<close>

definition xy :: "real list \<Rightarrow> py_error + real \<times> real" where
  "xy t = (case t of x # y # _ \<Rightarrow> Inr (x, y) | _ \<Rightarrow> Inl IndexError)"

text \<open>A loop that builds a list and stops at the first exception.\<close>

fun collect :: "(nat \<Rightarrow> py_error + 'a) \<Rightarrow> nat list \<Rightarrow> py_error + 'a list" where
  "collect f [] = Inr []"
| "collect f (i # rest) =
     (case f i of
        Inl e \<Rightarrow> Inl e
      | Inr v \<Rightarrow> (case collect f rest of Inl e \<Rightarrow> Inl e | Inr vs \<Rightarrow> Inr (v # vs)))"

subsection \<open>lines-to-points\<close>

text \<open>
  One pass of the inner loop: the point for \<open>index\<close>, named by the running
  \<^verbatim>\<open>point_index\<close>.
\<close>

definition line_point ::
  "real \<Rightarrow> real \<Rightarrow> real \<Rightarrow> real \<Rightarrow> real \<Rightarrow> nat \<Rightarrow> nat \<Rightarrow> TGeometryItem" where
  "line_point sx ex x_difference slope y_intercept point_index index =
     (let x = sx + x_difference * real index * (if 0 < sx - ex then 1 else - 1);
          y = x * slope + y_intercept
      in (''POINT:'' @ str_nat (point_index + index), [[x, y, 0]]))"

text \<open>
  The slope, the intercept and the inner loop, for a line from \<open>(sx, sy)\<close> to
  \<open>(ex, ey)\<close>: the slope divides by \<open>sx - ex\<close>.
\<close>

definition sample_line ::
  "real \<Rightarrow> real \<Rightarrow> real \<Rightarrow> real \<Rightarrow> int \<Rightarrow> real \<Rightarrow> nat \<Rightarrow> py_error + TGeometryList" where
  "sample_line sx sy ex ey num_segments x_difference point_index =
     (if sx - ex = 0 then Inl ZeroDivisionError
      else
        let slope = (sy - ey) / (sx - ex);
            y_intercept = sy - slope * sx
        in Inr (map (line_point sx ex x_difference slope y_intercept point_index)
                  [0..<nat num_segments]))"

text \<open>
  The loop over the given lines. \<^verbatim>\<open>num_segments\<close> is assigned in the loop, so it is
  carried from one line to the next. In the branch of \<^verbatim>\<open>segment_length\<close> the count
  becomes a float (the quotient of two floats): after the slope is computed,
  \<^verbatim>\<open>range(0, num_segments)\<close> raises TypeError.
\<close>

fun lines_loop ::
  "TGeometryList \<Rightarrow> int \<Rightarrow> real \<Rightarrow> string \<Rightarrow> nat \<Rightarrow> TGeometryList \<Rightarrow> py_error + TGeometryList"
where
  "lines_loop [] num_segments segment_length units point_index points = Inr points"
| "lines_loop (line # given_lines) num_segments segment_length units point_index points =
     (case snd line of
        start_point # end_point # _ \<Rightarrow>
          (case conversion_factor units of
             Inl e \<Rightarrow> Inl e
           | Inr cf \<Rightarrow>
               (case xy start_point of
                  Inl e \<Rightarrow> Inl e
                | Inr (sx, sy) \<Rightarrow>
                    (case xy end_point of
                       Inl e \<Rightarrow> Inl e
                     | Inr (ex, ey) \<Rightarrow>
                         if num_segments \<noteq> 0 then
                           (case sample_line sx sy ex ey num_segments
                                   ((ex - sx) / real_of_int num_segments) point_index of
                              Inl e \<Rightarrow> Inl e
                            | Inr new \<Rightarrow>
                                lines_loop given_lines num_segments segment_length units
                                  (point_index + length new) (points @ new))
                         else if segment_length \<noteq> 0 then
                           (if segment_length * cf = 0 then Inl ZeroDivisionError
                            else if sx - ex = 0 then Inl ZeroDivisionError
                            else Inl TypeError)
                         else
                           (case sample_line sx sy ex ey NUM_SEGMENTS
                                   ((ex - sx) / real_of_int NUM_SEGMENTS) point_index of
                              Inl e \<Rightarrow> Inl e
                            | Inr new \<Rightarrow>
                                lines_loop given_lines NUM_SEGMENTS segment_length units
                                  (point_index + length new) (points @ new)))))
      | _ \<Rightarrow> Inl IndexError)"

definition lines_to_points ::
  "TGeometryList \<Rightarrow> int \<Rightarrow> real \<Rightarrow> string \<Rightarrow> py_error + TGeometryList" where
  "lines_to_points given_lines num_segments segment_length units =
     lines_loop given_lines num_segments segment_length units 0 []"

subsection \<open>arc-to-lines\<close>

text \<open>
  The choice of the segment count and of the segment angle. The count given by the caller is
  used only when it exceeds 2; the branch of \<^verbatim>\<open>segment_length\<close> divides by
  \<^verbatim>\<open>radius*2*math.pi\<close> and by the segment angle.
\<close>

definition arc_segments ::
  "real \<Rightarrow> real \<Rightarrow> real \<Rightarrow> int \<Rightarrow> real \<Rightarrow> py_error + int \<times> real" where
  "arc_segments radius degree cf num_segments segment_length =
     (if 2 < num_segments then Inr (num_segments, degree / real_of_int num_segments)
      else if 0 < segment_length then
        (if radius * 2 * pi = 0 then Inl ZeroDivisionError
         else
           let segment_angle = (segment_length * cf / (radius * 2 * pi)) * 360
           in if segment_angle = 0 then Inl ZeroDivisionError
              else Inr (py_int (degree / segment_angle), segment_angle))
      else Inr (NUM_SEGMENTS, degree / real_of_int NUM_SEGMENTS))"

text \<open>
  The sampled points, for \<^verbatim>\<open>index in range(0, num_segments+1)\<close>. The centre is
  indexed inside the loop only.
\<close>

definition arc_point ::
  "real \<Rightarrow> real \<Rightarrow> real \<Rightarrow> real \<Rightarrow> real \<Rightarrow> real \<Rightarrow> real \<Rightarrow> nat \<Rightarrow> real list" where
  "arc_point c0 c1 c2 radius start_angle segment_angle cf index =
     (let angle = start_angle + segment_angle * real index;
          x = radius * cos (radians angle) / cf;
          y = radius * sin (radians angle) / cf
      in [x + c0, y + c1, c2])"

definition arc_points ::
  "real list \<Rightarrow> real \<Rightarrow> real \<Rightarrow> real \<Rightarrow> real \<Rightarrow> int \<Rightarrow> py_error + real list list" where
  "arc_points center radius start_angle segment_angle cf num_segments =
     (if num_segments + 1 \<le> 0 then Inr []
      else
        (case center of
           c0 # c1 # c2 # _ \<Rightarrow>
             Inr (map (arc_point c0 c1 c2 radius start_angle segment_angle cf)
                    [0..<nat (num_segments + 1)])
         | _ \<Rightarrow> Inl IndexError))"

text \<open>
  The chords, for \<^verbatim>\<open>index in range(0, num_segments)\<close>; \<open>points\<close> has
  \<open>num_segments + 1\<close> entries whenever this loop runs.
\<close>

definition arc_chord :: "real list list \<Rightarrow> real \<Rightarrow> nat \<Rightarrow> nat \<Rightarrow> TGeometryItem" where
  "arc_chord points cf line_index index =
     (''LINE:'' @ str_nat (line_index + index),
      [map (\<lambda>x. cf * x) (points ! index), map (\<lambda>x. cf * x) (points ! (index + 1))])"

definition arc_chords :: "real list list \<Rightarrow> real \<Rightarrow> int \<Rightarrow> nat \<Rightarrow> TGeometryList" where
  "arc_chords points cf num_segments line_index =
     map (arc_chord points cf line_index) [0..<nat num_segments]"

text \<open>
  The closing line of a full circle, from \<^verbatim>\<open>points[num_segments]\<close> to
  \<^verbatim>\<open>points[0]\<close>. With a negative count no point was sampled and the read raises
  IndexError.
\<close>

definition arc_closing ::
  "real list list \<Rightarrow> real \<Rightarrow> int \<Rightarrow> real \<Rightarrow> real \<Rightarrow> nat \<Rightarrow> py_error + TGeometryList" where
  "arc_closing points cf num_segments start_angle end_angle line_index =
     (if end_angle - start_angle = 360 then
        (if num_segments < 0 then Inl IndexError
         else Inr [(''LINE:'' @ str_nat line_index,
                    [map (\<lambda>x. cf * x) (points ! nat num_segments),
                     map (\<lambda>x. cf * x) (points ! 0)])])
      else Inr [])"

fun arcs_loop ::
  "TGeometryList \<Rightarrow> int \<Rightarrow> real \<Rightarrow> string \<Rightarrow> nat \<Rightarrow> TGeometryList \<Rightarrow> py_error + TGeometryList"
where
  "arcs_loop [] num_segments segment_length units line_index lines = Inr lines"
| "arcs_loop (arc # given_arcs) num_segments segment_length units line_index lines =
     (case snd arc of
        center # (radius # start_angle # end_angle # _) # _ \<Rightarrow>
          (case conversion_factor units of
             Inl e \<Rightarrow> Inl e
           | Inr cf \<Rightarrow>
               (case arc_segments radius (end_angle - start_angle) cf num_segments
                       segment_length of
                  Inl e \<Rightarrow> Inl e
                | Inr (n, segment_angle) \<Rightarrow>
                    (case arc_points center radius start_angle segment_angle cf n of
                       Inl e \<Rightarrow> Inl e
                     | Inr points \<Rightarrow>
                         (case arc_closing points cf n start_angle end_angle
                                 (line_index + nat n) of
                            Inl e \<Rightarrow> Inl e
                          | Inr closing \<Rightarrow>
                              arcs_loop given_arcs n segment_length units
                                (line_index + nat n + length closing)
                                (lines @ arc_chords points cf n line_index @ closing)))))
      | _ \<Rightarrow> Inl IndexError)"

definition arc_to_lines ::
  "TGeometryList \<Rightarrow> int \<Rightarrow> real \<Rightarrow> string \<Rightarrow> py_error + TGeometryList" where
  "arc_to_lines given_arcs num_segments segment_length units =
     arcs_loop given_arcs num_segments segment_length units 0 []"

subsection \<open>ellipse-to-arcs\<close>

text \<open>
  One pass of the sampling loop. The polar radius divides by the square root; the centre is
  indexed after that.
\<close>

definition ellipse_point :: "real list \<Rightarrow> real \<Rightarrow> real \<Rightarrow> real \<Rightarrow> nat \<Rightarrow> py_error + real list"
where
  "ellipse_point center major_radius minor_radius angle index =
     (let theta = real index * angle;
          root = sqrt ((minor_radius * cos (radians theta)) ^ 2
                       + (major_radius * sin (radians theta)) ^ 2)
      in if root = 0 then Inl ZeroDivisionError
         else
           let radius = major_radius * minor_radius / root;
               x = radius * cos (radians theta);
               y = radius * sin (radians theta)
           in (case center of
                 c0 # c1 # c2 # _ \<Rightarrow> Inr [x + c0, y + c1, c2]
               | _ \<Rightarrow> Inl IndexError))"

text \<open>
  The two assignments inside \<^verbatim>\<open>try\<close>. Both formulas divide by
  \<open>2*p1y - 2*p3y\<close>, and the one for \<open>cx\<close> by a second denominator;
  \<open>None\<close> is the ZeroDivisionError, raised before either variable is assigned.
\<close>

definition circumcenter ::
  "real \<Rightarrow> real \<Rightarrow> real \<Rightarrow> real \<Rightarrow> real \<Rightarrow> real \<Rightarrow> (real \<times> real) option" where
  "circumcenter p1x p1y p2x p2y p3x p3y =
     (if 2 * p1y - 2 * p3y = 0 then None
      else if (2 * p1x - 2 * p2x)
                - ((2 * p1y - 2 * p2y) * (2 * p1x - 2 * p3x)) / (2 * p1y - 2 * p3y) = 0
        then None
      else
        let cx = ((p1x * p1x + p1y * p1y - p2x * p2x - p2y * p2y)
                  - (((2 * p1y - 2 * p2y) * (p1x * p1x + p1y * p1y - p3x * p3x - p3y * p3y))
                      / (2 * p1y - 2 * p3y)))
                 / ((2 * p1x - 2 * p2x)
                    - ((2 * p1y - 2 * p2y) * (2 * p1x - 2 * p3x)) / (2 * p1y - 2 * p3y));
            cy = ((p1x * p1x + p1y * p1y - p3x * p3x - p3y * p3y) / (2 * p1y - 2 * p3y))
                 - (cx * ((2 * p1x - 2 * p3x) / (2 * p1y - 2 * p3y)))
        in Some (cx, cy))"

text \<open>
  The state of \<^verbatim>\<open>ellipse_to_arcs\<close> that its loops change: the local variables
  \<open>cx\<close> and \<open>cy\<close> (unbound until the first successful fit, and kept from one pass and
  one ellipse to the next), the arc index, the arcs and the log of warnings.
\<close>

record fit_state =
  center_xy :: "(real \<times> real) option"
  arc_index :: nat
  arcs :: TGeometryList
  warnings :: "string list"

text \<open>
  The code after \<^verbatim>\<open>try\<close>: radius and angles of the arc from the first and the
  last point of the triple and the current values of \<open>cx\<close> and \<open>cy\<close>. The third
  component of the centre of the arc is the literal 0.
\<close>

definition fitted_arc ::
  "real \<Rightarrow> real \<Rightarrow> real \<Rightarrow> real \<Rightarrow> real \<Rightarrow> real \<Rightarrow> real \<Rightarrow> nat \<Rightarrow> TGeometryItem" where
  "fitted_arc p1x p1y p3x p3y cx cy cf index =
     (let radius = sqrt ((p1x - cx) ^ 2 + (p1y - cy) ^ 2);
          start_angle = degrees (atan2 (p1y - cy) (p1x - cx));
          end_angle = degrees (atan2 (p3y - cy) (p3x - cx))
      in (''ARC:'' @ str_nat index,
          [[cx / cf, cy / cf, 0], [radius / cf, start_angle, end_angle]]))"

text \<open>
  One pass of the fitting loop. The handler of ZeroDivisionError only logs a warning: the code
  after \<^verbatim>\<open>try\<close> runs in either case and reads \<open>cx\<close> and \<open>cy\<close>, which raises
  UnboundLocalError when no fit has succeeded before. \<open>points\<close> has
  \<open>2 * num_segments\<close> entries of three components each, so the reads are in range.
\<close>

definition fit_step ::
  "real list list \<Rightarrow> real \<Rightarrow> nat \<Rightarrow> fit_state \<Rightarrow> py_error \<times> string list + fit_state" where
  "fit_step points cf index st =
     (let p1x = points ! (2 * index) ! 0;
          p1y = points ! (2 * index) ! 1;
          p2x = points ! (2 * index + 1) ! 0;
          p2y = points ! (2 * index + 1) ! 1;
          p3x = points ! ((2 * index + 2) mod length points) ! 0;
          p3y = points ! ((2 * index + 2) mod length points) ! 1;
          st1 = (case circumcenter p1x p1y p2x p2y p3x p3y of
                   Some c \<Rightarrow> st\<lparr>center_xy := Some c\<rparr>
                 | None \<Rightarrow> st\<lparr>warnings := warnings st @ [''Divide by zero error'']\<rparr>)
      in case center_xy st1 of
           None \<Rightarrow> Inl (UnboundLocalError, warnings st1)
         | Some (cx, cy) \<Rightarrow>
             Inr (st1\<lparr>arc_index := arc_index st1 + 1,
                      arcs := arcs st1 @ [fitted_arc p1x p1y p3x p3y cx cy cf (arc_index st1)]\<rparr>))"

fun fit_loop ::
  "real list list \<Rightarrow> real \<Rightarrow> nat list \<Rightarrow> fit_state \<Rightarrow> py_error \<times> string list + fit_state" where
  "fit_loop points cf [] st = Inr st"
| "fit_loop points cf (index # rest) st =
     (case fit_step points cf index st of
        Inl e \<Rightarrow> Inl e
      | Inr st' \<Rightarrow> fit_loop points cf rest st')"

text \<open>The two inner loops for one ellipse: sampling, then fitting.\<close>

definition ellipse_arcs ::
  "real list \<Rightarrow> real \<Rightarrow> real \<Rightarrow> real \<Rightarrow> real \<Rightarrow> int \<Rightarrow> fit_state
     \<Rightarrow> py_error \<times> string list + fit_state" where
  "ellipse_arcs center major_radius minor_radius cf angle num_segments st =
     (case collect (ellipse_point center major_radius minor_radius angle)
             [0..<nat (2 * num_segments)] of
        Inl e \<Rightarrow> Inl (e, warnings st)
      | Inr points \<Rightarrow> fit_loop points cf [0..<nat num_segments] st)"

text \<open>
  The body of the loop over the given ellipses: the count that the next pass starts with, and
  the new state. In the branch of \<^verbatim>\<open>segment_length\<close> the code computes an angle
  but leaves \<^verbatim>\<open>num_segments\<close> at 0, so both inner loops are empty;
  \<^verbatim>\<open>continue\<close> ends the pass after the warning.
\<close>

definition ellipse_step ::
  "TGeometryItem \<Rightarrow> int \<Rightarrow> real \<Rightarrow> string \<Rightarrow> fit_state
     \<Rightarrow> py_error \<times> string list + int \<times> fit_state" where
  "ellipse_step ellipse num_segments segment_length units st =
     (case snd ellipse of
        center # (major_radius # _) # (ratio # _) # _ \<Rightarrow>
          (let minor_radius = ratio * major_radius
           in case conversion_factor units of
                Inl e \<Rightarrow> Inl (e, warnings st)
              | Inr cf \<Rightarrow>
                  if num_segments \<noteq> 0 then
                    (case ellipse_arcs center major_radius minor_radius cf
                         ((360 / real_of_int num_segments) / 2) num_segments st of
                         Inl e \<Rightarrow> Inl e
                       | Inr st' \<Rightarrow> Inr (num_segments, st'))
                  else if segment_length \<noteq> 0 then
                    (let circumfrance =
                           2 * pi * sqrt ((major_radius * major_radius
                                           + minor_radius * minor_radius) / 2)
                     in if circumfrance < segment_length / cf then
                          Inr (num_segments,
                               st\<lparr>warnings := warnings st
                                    @ [''Invalid segment_length: segment_length > circumfrance'']\<rparr>)
                        else if circumfrance = 0 then Inl (ZeroDivisionError, warnings st)
                        else
                          (case ellipse_arcs center major_radius minor_radius cf
                               ((segment_length / circumfrance) * 360) num_segments st of
                               Inl e \<Rightarrow> Inl e
                             | Inr st' \<Rightarrow> Inr (num_segments, st')))
                  else
                    (case ellipse_arcs center major_radius minor_radius cf
                         ((360 / real_of_int NUM_SEGMENTS) / 2) NUM_SEGMENTS st of
                         Inl e \<Rightarrow> Inl e
                       | Inr st' \<Rightarrow> Inr (NUM_SEGMENTS, st')))
      | _ \<Rightarrow> Inl (IndexError, warnings st))"

fun ellipses_loop ::
  "TGeometryList \<Rightarrow> int \<Rightarrow> real \<Rightarrow> string \<Rightarrow> fit_state \<Rightarrow> py_error \<times> string list + fit_state"
where
  "ellipses_loop [] num_segments segment_length units st = Inr st"
| "ellipses_loop (ellipse # given_ellipsis) num_segments segment_length units st =
     (case ellipse_step ellipse num_segments segment_length units st of
        Inl e \<Rightarrow> Inl e
      | Inr (n, st') \<Rightarrow> ellipses_loop given_ellipsis n segment_length units st')"

text \<open>The result: the log of warnings, and the exception raised or the arcs returned.\<close>

definition ellipse_to_arcs ::
  "TGeometryList \<Rightarrow> int \<Rightarrow> real \<Rightarrow> string \<Rightarrow> string list \<times> (py_error + TGeometryList)" where
  "ellipse_to_arcs given_ellipsis num_segments segment_length units =
     (case ellipses_loop given_ellipsis num_segments segment_length units
             \<lparr>center_xy = None, arc_index = 0, arcs = [], warnings = []\<rparr> of
        Inl (e, msgs) \<Rightarrow> (msgs, Inl e)
      | Inr st \<Rightarrow> (warnings st, Inr (arcs st)))"

subsection \<open>convert-to\<close>

text \<open>
  The recursive calls pass three arguments only, so the later stages run with the defaults
  \<^verbatim>\<open>num_segments = 0\<close>, \<^verbatim>\<open>min_length = 0\<close> and \<^verbatim>\<open>units = 'um'\<close>. When
  no branch of the chain of conditions fires, the function ends without a
  \<^verbatim>\<open>return\<close>: its value is Python's \<^verbatim>\<open>None\<close>, here \<open>Inr None\<close>.
\<close>

definition kind_rank :: "string \<Rightarrow> nat" where
  "kind_rank k =
     (if k = ''ELLIPSE'' then 3 else if k = ''ARC'' then 2 else if k = ''LINE'' then 1 else 0)"

function convert_to ::
  "string \<Rightarrow> string \<Rightarrow> TGeometryList \<Rightarrow> int \<Rightarrow> real \<Rightarrow> string
     \<Rightarrow> string list \<times> (py_error + TGeometryList option)" where
  "convert_to given_geometry_type return_geometry_type given_geometry num_segments min_length
       units =
     (if given_geometry_type = return_geometry_type then ([], Inr (Some given_geometry))
      else if given_geometry_type = ''LINE'' then
        (case lines_to_points given_geometry num_segments min_length units of
           Inl e \<Rightarrow> ([], Inl e)
         | Inr points \<Rightarrow> convert_to ''POINT'' return_geometry_type points 0 0 ''um'')
      else if given_geometry_type = ''ARC'' then
        (case arc_to_lines given_geometry num_segments min_length units of
           Inl e \<Rightarrow> ([], Inl e)
         | Inr lines \<Rightarrow> convert_to ''LINE'' return_geometry_type lines 0 0 ''um'')
      else if given_geometry_type = ''ELLIPSE'' then
        (case ellipse_to_arcs given_geometry num_segments min_length units of
           (msgs, Inl e) \<Rightarrow> (msgs, Inl e)
         | (msgs, Inr new_arcs) \<Rightarrow>
             (case convert_to ''ARC'' return_geometry_type new_arcs 0 0 ''um'' of
                (msgs', r) \<Rightarrow> (msgs @ msgs', r)))
      else ([], Inr None))"
  by pat_completeness auto
termination
  by (relation "measure (\<lambda>(g, r, geo, n, l, u). kind_rank g)") (auto simp: kind_rank_def)

declare convert_to.simps [simp del]

subsection \<open>Notions used to state the properties\<close>

text \<open>
  The outcome of the \<^verbatim>\<open>try\<close> block for the triple that the fitting loop reads at
  \<open>index\<close>: the points \<open>2*index\<close>, \<open>2*index+1\<close> and
  \<open>(2*index+2) % len(points)\<close>.
\<close>

definition fit_center :: "real list list \<Rightarrow> nat \<Rightarrow> (real \<times> real) option" where
  "fit_center points index =
     circumcenter (points ! (2 * index) ! 0) (points ! (2 * index) ! 1)
       (points ! (2 * index + 1) ! 0) (points ! (2 * index + 1) ! 1)
       (points ! ((2 * index + 2) mod length points) ! 0)
       (points ! ((2 * index + 2) mod length points) ! 1)"

text \<open>An arc record whose centre has the third component 0.\<close>

definition flat_center :: "TGeometryItem \<Rightarrow> bool" where
  "flat_center arc = (\<exists>x y r. snd arc = [[x, y, 0], r])"

text \<open>
  The kind that each branch of \<^verbatim>\<open>convert_to\<close> recurses with, and the adjacency
  paths that these steps form; a path has at most three steps.
\<close>

definition adjacent :: "string \<Rightarrow> string option" where
  "adjacent k =
     (if k = ''LINE'' then Some ''POINT''
      else if k = ''ARC'' then Some ''LINE''
      else if k = ''ELLIPSE'' then Some ''ARC''
      else None)"

fun path_within :: "nat \<Rightarrow> string \<Rightarrow> string \<Rightarrow> bool" where
  "path_within 0 s t = (s = t)"
| "path_within (Suc k) s t =
     (s = t \<or> (case adjacent s of None \<Rightarrow> False | Some s' \<Rightarrow> path_within k s' t))"

definition has_path :: "string \<Rightarrow> string \<Rightarrow> bool" where
  "has_path s t = path_within 3 s t"


text \<open>
  The six points that the sampling loop produces for the circle of radius 2 around
  \<open>(0, 0, 5)\<close> with three segments.
\<close>

definition circle_points :: "real list list" where
  "circle_points =
     [[2, 0, 5], [1, sqrt 3, 5], [- 1, sqrt 3, 5], [- 2, 0, 5], [- 1, - sqrt 3, 5],
      [1, - sqrt 3, 5]]"

section \<open>Properties\<close>

subsection \<open>Resolution of Spline and Polyline sources\<close>

lemma index_of_SPLINE: "index_of geometries ''SPLINE'' = Some 4"
  by (simp add: geometries_def)

lemma index_of_LWPOLYLINE: "index_of geometries ''LWPOLYLINE'' = Some 5"
  by (simp add: geometries_def)

lemma below_SPLINE: "rev (take 4 geometries) = [''ELLIPSE'', ''ARC'', ''LINE'', ''POINT'']"
  by (simp add: geometries_def)

lemma below_LWPOLYLINE:
  "rev (take 5 geometries) = [''SPLINE'', ''ELLIPSE'', ''ARC'', ''LINE'', ''POINT'']"
  by (simp add: geometries_def)

text \<open>
  Where the special cases decide, the code does what is documented at them
  (\<^verbatim>\<open>SPLINE -> LINES -> POINTS\<close> and
  \<^verbatim>\<open>LWPOLYLINE -> ARCS/LINES -> LINES -> POINTS\<close>).
\<close>

lemma spline_line_or_point:
  "''LINE'' \<in> set allowedtypes \<or> ''POINT'' \<in> set allowedtypes \<Longrightarrow>
     get_hifi_geometry ''SPLINE'' allowedtypes
       = Inr (Some (if ''LINE'' \<in> set allowedtypes then ''LINE'' else ''POINT''))"
  by (auto simp: get_hifi_geometry_def)

lemma polyline_line_or_point:
  "''LINE'' \<in> set allowedtypes \<or> ''POINT'' \<in> set allowedtypes \<Longrightarrow>
     get_hifi_geometry ''LWPOLYLINE'' allowedtypes
       = Inr (Some (if ''LINE'' \<in> set allowedtypes
                    then (if ''ARC'' \<in> set allowedtypes then ''ARC'' else ''LINE'')
                    else ''POINT''))"
  by (auto simp: get_hifi_geometry_def)

text \<open>
  Neither special case ends with a \<^verbatim>\<open>return\<close>: when none of its branches fires,
  the loop over the kinds below the source runs for a Spline or Polyline source as well.
\<close>

lemma spline_fall_through:
  "''LINE'' \<notin> set allowedtypes \<Longrightarrow> ''POINT'' \<notin> set allowedtypes \<Longrightarrow>
     get_hifi_geometry ''SPLINE'' allowedtypes
       = Inr (find (\<lambda>g. g \<in> set allowedtypes) [''ELLIPSE'', ''ARC'', ''LINE'', ''POINT''])"
  by (simp add: get_hifi_geometry_def index_of_SPLINE below_SPLINE)

lemma polyline_fall_through:
  "''LINE'' \<notin> set allowedtypes \<Longrightarrow> ''POINT'' \<notin> set allowedtypes \<Longrightarrow>
     get_hifi_geometry ''LWPOLYLINE'' allowedtypes
       = Inr (find (\<lambda>g. g \<in> set allowedtypes)
                [''SPLINE'', ''ELLIPSE'', ''ARC'', ''LINE'', ''POINT''])"
  by (simp add: get_hifi_geometry_def index_of_LWPOLYLINE below_LWPOLYLINE)

text \<open>
  C1 (defect of the code): a Spline source with only Arc allowed. Line and Point are not
  allowed, so the claim gives no kind; the code falls through the special case into the rank
  walk and returns Arc for the Spline source.
\<close>

theorem C1_spline_only_arc_allowed:
  "''LINE'' \<notin> set [''ARC''] \<and> ''POINT'' \<notin> set [''ARC'']
   \<and> get_hifi_geometry ''SPLINE'' [''ARC''] = Inr (Some ''ARC'')"
  by (simp add: get_hifi_geometry_def index_of_SPLINE below_SPLINE)

text \<open>
  C2 (defect of the code): a Polyline source with only Arc allowed. Arc is returned by the
  special case only together with Line, and neither Line nor Point is allowed, so the claim
  gives no kind; the code falls through into the rank walk and returns Arc.
\<close>

theorem C2_polyline_only_arc_allowed:
  "''LINE'' \<notin> set [''ARC''] \<and> ''POINT'' \<notin> set [''ARC'']
   \<and> get_hifi_geometry ''LWPOLYLINE'' [''ARC''] = Inr (Some ''ARC'')"
  by (simp add: get_hifi_geometry_def index_of_LWPOLYLINE below_LWPOLYLINE)

subsection \<open>Units, names and ranges\<close>

lemma conversion_factor_um: "conversion_factor ''um'' = Inr 1"
  by (simp add: conversion_factor_def UNIT_TABLE_def CONVERSION_FACTORS_def)

lemma conversion_factor_mm: "conversion_factor ''mm'' = Inr 1000"
  by (simp add: conversion_factor_def UNIT_TABLE_def CONVERSION_FACTORS_def)

lemma index_of_Some: "x \<in> set xs \<Longrightarrow> \<exists>i. index_of xs x = Some i \<and> i < length xs"
  by (induction xs) auto


lemma CONVERSION_FACTORS_pos: "\<forall>c \<in> set CONVERSION_FACTORS. 0 < c"
  by (simp add: CONVERSION_FACTORS_def)

lemma length_tables: "length UNIT_TABLE = 24" "length CONVERSION_FACTORS = 25"
  by (simp_all add: UNIT_TABLE_def CONVERSION_FACTORS_def)

lemma conversion_factor_known:
  assumes "units \<in> set UNIT_TABLE"
  shows "\<exists>cf. conversion_factor units = Inr cf \<and> 0 < cf"
proof -
  from index_of_Some [OF assms] obtain i
    where i: "index_of UNIT_TABLE units = Some i" "i < length UNIT_TABLE"
    by blast
  then have "i + 1 < length CONVERSION_FACTORS"
    by (simp add: length_tables)
  then have "CONVERSION_FACTORS ! (i + 1) \<in> set CONVERSION_FACTORS"
    by (rule nth_mem)
  with CONVERSION_FACTORS_pos have "0 < CONVERSION_FACTORS ! (i + 1)"
    by blast
  with i show ?thesis
    by (simp add: conversion_factor_def)
qed


lemma str_nat_digits: "str_nat 0 = ''0''" "str_nat 1 = ''1''" "str_nat 12 = ''12''"
  by (simp_all add: str_nat.simps digit_char_def)

lemma upt_2: "[0..<2] = [0, Suc 0]"
  by (simp add: upt_rec)

lemma upt_3: "[0..<3] = [0, Suc 0, 2]"
  by (simp add: upt_rec)

lemma upt_6: "[0..<6] = [0, Suc 0, 2, 3, 4, 5]"
  by (simp add: upt_rec)

subsection \<open>lines-to-points: vertical lines, direction, units\<close>

text \<open>
  Whatever the segment parameters, a first line with equal x-coordinates ends the call with the
  ZeroDivisionError of the slope: no diagnostic, no points.
\<close>

lemma vertical_line_raises:
  assumes "units \<in> set UNIT_TABLE" and "snd line = (x # sy # s) # (x # ey # e) # vs"
  shows "lines_to_points (line # given_lines) num_segments segment_length units
           = Inl ZeroDivisionError"
proof -
  from conversion_factor_known [OF assms(1)] obtain cf
    where "conversion_factor units = Inr cf" by blast
  then show ?thesis
    by (simp add: lines_to_points_def assms(2) xy_def sample_line_def)
qed

text \<open>
  C4 (defect of the code): the vertical line from \<open>(0, 0, 0)\<close> to \<open>(0, 1, 0)\<close> with
  one segment. The call ends with the unhandled ZeroDivisionError of the slope computation;
  no degenerate-geometry condition is signalled.
\<close>

theorem C4_vertical_line_raises:
  "lines_to_points [(''LINE:0'', [[0, 0, 0], [0, 1, 0]])] 1 0 ''um'' = Inl ZeroDivisionError"
  by (simp add: lines_to_points_def conversion_factor_um xy_def sample_line_def)

text \<open>
  The x-coordinate of the point for \<open>index\<close> when the count \<open>n\<close> is given: the step
  \<open>(ex - sx) / n\<close> already carries the sign of \<open>ex - sx\<close> and is multiplied by a
  second sign, so the points start at \<open>sx\<close> and always move towards smaller x.
\<close>

lemma line_point_x:
  assumes "0 < n"
  shows "hd (hd (snd (line_point sx ex ((ex - sx) / real_of_int n) slope y_intercept k index)))
           = sx - \<bar>ex - sx\<bar> / real_of_int n * real index"
  using assms by (simp add: line_point_def Let_def abs_if field_simps)

text \<open>
  C5 (defect of the code): the line from \<open>(0, 0, 0)\<close> to \<open>(10, 10, 0)\<close> with two
  segments. The points start at \<open>start.x = 0\<close>, are evenly spaced and have z = 0, but
  the second point has x = -5: it moves away from \<open>end.x = 10\<close>.
\<close>

theorem C5_points_move_away_from_end:
  "lines_to_points [(''LINE:0'', [[0, 0, 0], [10, 10, 0]])] 2 0 ''um''
     = Inr [(''POINT:0'', [[0, 0, 0]]), (''POINT:1'', [[- 5, - 5, 0]])]"
  by (simp add: lines_to_points_def conversion_factor_um xy_def sample_line_def line_point_def
      str_nat.simps digit_char_def upt_rec)

lemma lines_loop_units:
  assumes "conversion_factor u1 = Inr c1" "conversion_factor u2 = Inr c2" "n \<noteq> 0"
  shows "lines_loop ls n sl u1 k pts = lines_loop ls n sl u2 k pts"
  using assms
  by (induction ls arbitrary: k pts) (auto split: list.splits sum.splits)

text \<open>
  C9: for every list of lines and every num-segments greater than 0, lines-to-points returns
  the same result (the same points, or the same exception) for any two recognized unit
  strings.
\<close>

theorem C9_units_do_not_change_points:
  assumes "u1 \<in> set UNIT_TABLE" and "u2 \<in> set UNIT_TABLE" and "0 < n"
  shows "lines_to_points ls n sl u1 = lines_to_points ls n sl u2"
proof -
  from conversion_factor_known [OF assms(1)] obtain c1
    where c1: "conversion_factor u1 = Inr c1" by blast
  from conversion_factor_known [OF assms(2)] obtain c2
    where c2: "conversion_factor u2 = Inr c2" by blast
  from assms(3) have "n \<noteq> 0" by simp
  with c1 c2 show ?thesis
    unfolding lines_to_points_def by (rule lines_loop_units)
qed

theorem C9_units_do_not_change_points_witness:
  "''um'' \<in> set UNIT_TABLE \<and> ''mm'' \<in> set UNIT_TABLE \<and> (0::int) < 2
   \<and> lines_to_points [(''LINE:0'', [[10, 10, 0], [0, 0, 0]])] 2 7 ''um''
       = lines_to_points [(''LINE:0'', [[10, 10, 0], [0, 0, 0]])] 2 7 ''mm''
   \<and> lines_to_points [(''LINE:0'', [[10, 10, 0], [0, 0, 0]])] 2 7 ''mm''
       = Inr [(''POINT:0'', [[10, 10, 0]]), (''POINT:1'', [[5, 5, 0]])]"
proof -
  have u: "''um'' \<in> set UNIT_TABLE" "''mm'' \<in> set UNIT_TABLE"
    by (simp_all add: UNIT_TABLE_def)
  have run: "lines_to_points [(''LINE:0'', [[10, 10, 0], [0, 0, 0]])] 2 7 ''mm''
       = Inr [(''POINT:0'', [[10, 10, 0]]), (''POINT:1'', [[5, 5, 0]])]"
    by (simp add: lines_to_points_def conversion_factor_mm xy_def sample_line_def line_point_def
        str_nat.simps digit_char_def upt_rec)
  from u run
    C9_units_do_not_change_points [OF u, of 2 "[(''LINE:0'', [[10, 10, 0], [0, 0, 0]])]" 7]
  show ?thesis by simp
qed

subsection \<open>arc-to-lines: the segment count and the full circle\<close>

lemma arc_segments_direct:
  "2 < n \<Longrightarrow> arc_segments r d cf n sl = Inr (n, d / real_of_int n)"
  by (simp add: arc_segments_def)


text \<open>
  C7, as stated, fails for the counts 1 and 2: the full circle with num-segments = 2 (and no
  segment length) is cut into the default 10 chords, 11 lines with the closing one, not 3.
\<close>

theorem C7_two_segments_counterexample:
  "(360::real) - 0 = 360
   \<and> map_sum id length (arc_to_lines [(''ARC:0'', [[0, 0, 0], [1, 0, 360]])] 2 0 ''um'')
       = Inr 11"
  by (simp add: arc_to_lines_def conversion_factor_um arc_segments_def NUM_SEGMENTS_def
      arc_points_def arc_closing_def arc_chords_def)

text \<open>
  C7 (amended): for every arc with end-angle - start-angle = 360, every num-segments = N
  greater than 2 and every recognized unit, arc-to-lines produces exactly N + 1 lines: chord
  \<open>i\<close>, for \<open>i < N\<close>, connects the sampled points \<open>i\<close> and \<open>i + 1\<close> (at the angles
  start-angle + (360 / N) * i), the last line connects the sampled point \<open>N\<close> to the
  sampled point 0, and its end point equals the start point of the first chord.
\<close>

theorem C7_full_circle:
  assumes "2 < n"
    and "conversion_factor units = Inr cf"
    and "end_angle - start_angle = 360"
    and "snd arc = (c0 # c1 # c2 # cs) # (radius # start_angle # end_angle # rs) # vs"
  shows "\<exists>lines.
           arc_to_lines [arc] n sl units = Inr lines
           \<and> length lines = nat n + 1
           \<and> (let P = (\<lambda>i. map (\<lambda>x. cf * x)
                             (arc_point c0 c1 c2 radius start_angle (360 / real_of_int n) cf i))
              in (\<forall>i < nat n. snd (lines ! i) = [P i, P (i + 1)])
                 \<and> snd (lines ! nat n) = [P (nat n), P 0])
           \<and> snd (lines ! nat n) ! 1 = snd (lines ! 0) ! 0"
proof -
  define points where
    "points = map (arc_point c0 c1 c2 radius start_angle (360 / real_of_int n) cf)
                [0..<nat (n + 1)]"
  define closing where
    "closing = (''LINE:'' @ str_nat (nat n),
                [map (\<lambda>x. cf * x) (points ! nat n), map (\<lambda>x. cf * x) (points ! 0)])"
  define lines where "lines = arc_chords points cf n 0 @ [closing]"
  have run: "arc_to_lines [arc] n sl units = Inr lines"
    using assms(1,3)
    by (simp add: arc_to_lines_def assms(2,4) arc_segments_direct arc_points_def arc_closing_def
        lines_def closing_def points_def)
  have len: "length (arc_chords points cf n 0) = nat n"
    by (simp add: arc_chords_def)
  have chord: "arc_chords points cf n 0 ! i = arc_chord points cf 0 i" if "i < nat n" for i
    using that by (simp add: arc_chords_def)
  have pt: "points ! i = arc_point c0 c1 c2 radius start_angle (360 / real_of_int n) cf i"
    if "i \<le> nat n" for i
  proof -
    from that assms(1) have "i < nat (n + 1)" by linarith
    then show ?thesis
      unfolding points_def by simp
  qed
  have l1: "length lines = nat n + 1"
    by (simp add: lines_def len)
  have l2: "snd (lines ! i)
              = [map (\<lambda>x. cf * x) (arc_point c0 c1 c2 radius start_angle (360 / real_of_int n) cf i),
                 map (\<lambda>x. cf * x)
                   (arc_point c0 c1 c2 radius start_angle (360 / real_of_int n) cf (i + 1))]"
    if "i < nat n" for i
    using that by (simp add: lines_def nth_append len chord arc_chord_def pt)
  have l3: "snd (lines ! nat n)
              = [map (\<lambda>x. cf * x)
                   (arc_point c0 c1 c2 radius start_angle (360 / real_of_int n) cf (nat n)),
                 map (\<lambda>x. cf * x)
                   (arc_point c0 c1 c2 radius start_angle (360 / real_of_int n) cf 0)]"
    by (simp add: lines_def nth_append len closing_def pt)
  have l4: "snd (lines ! nat n) ! 1 = snd (lines ! 0) ! 0"
    using assms(1) l2 [of 0] l3 by simp
  from run l1 l2 l3 l4 show ?thesis
    by (auto simp: Let_def)
qed

theorem C7_full_circle_witness:
  "(2::int) < 3 \<and> conversion_factor ''um'' = Inr 1 \<and> (360::real) - 0 = 360
   \<and> map_sum id length (arc_to_lines [(''ARC:0'', [[0, 0, 0], [1, 0, 360]])] 3 0 ''um'')
       = Inr 4"
proof -
  have n: "(2::int) < 3" by simp
  have full: "(360::real) - 0 = 360" by simp
  have shape: "snd (''ARC:0'', [[0, 0, 0], [1, 0, 360::real]])
                 = (0 # 0 # 0 # []) # (1 # 0 # 360 # []) # []"
    by simp
  from C7_full_circle [OF n conversion_factor_um full shape, of 0]
  obtain lines where
    "arc_to_lines [(''ARC:0'', [[0, 0, 0], [1, 0, 360]])] 3 0 ''um'' = Inr lines"
    "length lines = nat 3 + 1"
    by blast
  then show ?thesis
    by (simp add: conversion_factor_um)
qed



subsection \<open>convert-to: no path\<close>

lemma has_path_cases:
  "has_path s t \<longleftrightarrow>
     s = t \<or> (s = ''LINE'' \<and> t = ''POINT'')
     \<or> (s = ''ARC'' \<and> (t = ''LINE'' \<or> t = ''POINT''))
     \<or> (s = ''ELLIPSE'' \<and> (t = ''ARC'' \<or> t = ''LINE'' \<or> t = ''POINT''))"
  by (auto simp: has_path_def adjacent_def numeral_3_eq_3)

lemma convert_to_end:
  "s \<noteq> t \<Longrightarrow> adjacent s = None \<Longrightarrow> convert_to s t g n l u = ([], Inr None)"
  by (simp add: convert_to.simps adjacent_def split: if_splits)

lemma convert_to_POINT: "t \<noteq> ''POINT'' \<Longrightarrow> snd (convert_to ''POINT'' t g n l u) = Inr None"
  by (simp add: convert_to.simps)

lemma convert_to_LINE:
  "t \<noteq> ''POINT'' \<Longrightarrow> t \<noteq> ''LINE'' \<Longrightarrow>
     snd (convert_to ''LINE'' t g n l u) \<noteq> Inr (Some out)"
  by (simp add: convert_to.simps [of "''LINE''"] convert_to_POINT split: sum.splits)

lemma convert_to_ARC:
  "t \<noteq> ''POINT'' \<Longrightarrow> t \<noteq> ''LINE'' \<Longrightarrow> t \<noteq> ''ARC'' \<Longrightarrow>
     snd (convert_to ''ARC'' t g n l u) \<noteq> Inr (Some out)"
  by (simp add: convert_to.simps [of "''ARC''"] convert_to_LINE split: sum.splits)

lemma convert_to_ELLIPSE:
  assumes "t \<noteq> ''POINT''" "t \<noteq> ''LINE''" "t \<noteq> ''ARC''" "t \<noteq> ''ELLIPSE''"
  shows "snd (convert_to ''ELLIPSE'' t g n l u) \<noteq> Inr (Some out)"
proof -
  have "snd (convert_to ''ARC'' t g' 0 0 ''um'') \<noteq> Inr (Some out)" for g'
    using assms by (simp add: convert_to_ARC)
  then have "convert_to ''ARC'' t g' 0 0 ''um'' \<noteq> (m, Inr (Some out))" for g' m
    by (metis snd_conv)
  with assms show ?thesis
    by (auto simp: convert_to.simps [of "''ELLIPSE''"] split: sum.splits prod.splits)
qed

text \<open>
  The extent of the missing branch: without an adjacency path from the source kind to the
  target kind the call never returns a geometry list; when the source kind has no branch at
  all it returns Python's None at once, with no exception and no diagnostic.
\<close>

lemma convert_to_no_path:
  assumes "\<not> has_path s t"
  shows "(adjacent s = None \<longrightarrow> convert_to s t g n l u = ([], Inr None))
       \<and> (\<forall>out. snd (convert_to s t g n l u) \<noteq> Inr (Some out))"
proof -
  from assms have ne: "s \<noteq> t"
    by (simp add: has_path_cases)
  have a: "adjacent s = None \<longrightarrow> convert_to s t g n l u = ([], Inr None)"
    using ne by (simp add: convert_to_end)
  have b: "snd (convert_to s t g n l u) \<noteq> Inr (Some out)" for out
  proof (cases "adjacent s")
    case None
    with a show ?thesis by simp
  next
    case (Some s')
    then consider "s = ''LINE''" | "s = ''ARC''" | "s = ''ELLIPSE''"
      by (auto simp: adjacent_def split: if_splits)
    then show ?thesis
    proof cases
      case 1
      with assms show ?thesis by (auto simp: has_path_cases convert_to_LINE)
    next
      case 2
      with assms show ?thesis by (auto simp: has_path_cases convert_to_ARC)
    next
      case 3
      with assms show ?thesis by (auto simp: has_path_cases convert_to_ELLIPSE)
    qed
  qed
  from a b show ?thesis by blast
qed

text \<open>
  C8 (defect of the code): source POINT with target LINE. No adjacency path leads from POINT to
  LINE, and the call reports nothing: it falls off the end of the chain of conditions and
  returns without a result (Python's None) and without a diagnostic.
\<close>

theorem C8_point_to_line_returns_none:
  "convert_to ''POINT'' ''LINE'' [(''POINT:0'', [[0, 0, 0]])] 0 0 ''um'' = ([], Inr None)"
  by (simp add: convert_to.simps)

subsection \<open>ellipse-to-arcs: the degenerate fit\<close>

text \<open>
  The three outcomes of one pass of the fitting loop. After a failed fit the pass is not
  skipped: it raises UnboundLocalError when no earlier fit has bound \<open>cx\<close> and \<open>cy\<close>,
  and otherwise appends an arc around the centre of the previous fit.
\<close>

lemma fit_step_unbound:
  assumes "fit_center points index = None" "center_xy st = None"
  shows "fit_step points cf index st
           = Inl (UnboundLocalError, warnings st @ [''Divide by zero error''])"
  using assms by (simp add: fit_step_def fit_center_def Let_def)

lemma fit_step_stale:
  assumes "fit_center points index = None" "center_xy st = Some (cx, cy)"
  shows "fit_step points cf index st =
           Inr (st\<lparr>warnings := warnings st @ [''Divide by zero error''],
                   arc_index := arc_index st + 1,
                   arcs := arcs st
                     @ [fitted_arc (points ! (2 * index) ! 0) (points ! (2 * index) ! 1)
                          (points ! ((2 * index + 2) mod length points) ! 0)
                          (points ! ((2 * index + 2) mod length points) ! 1)
                          cx cy cf (arc_index st)]\<rparr>)"
  using assms by (simp add: fit_step_def fit_center_def Let_def)

lemma fit_step_fitted:
  assumes "fit_center points index = Some (cx, cy)"
  shows "fit_step points cf index st =
           Inr (st\<lparr>center_xy := Some (cx, cy),
                   arc_index := arc_index st + 1,
                   arcs := arcs st
                     @ [fitted_arc (points ! (2 * index) ! 0) (points ! (2 * index) ! 1)
                          (points ! ((2 * index + 2) mod length points) ! 0)
                          (points ! ((2 * index + 2) mod length points) ! 1)
                          cx cy cf (arc_index st)]\<rparr>)"
  using assms by (simp add: fit_step_def fit_center_def Let_def)

lemma half_turn_point_0:
  "ellipse_point [0, 0, 0] 2 (0.5 * 2) ((360 / real_of_int 1) / 2) 0 = Inr [2, 0, 0]"
  by (simp add: ellipse_point_def radians_def)

lemma half_turn_point_1:
  "ellipse_point [0, 0, 0] 2 (0.5 * 2) ((360 / real_of_int 1) / 2) (Suc 0) = Inr [- 2, 0, 0]"
  by (simp add: ellipse_point_def radians_def)

text \<open>
  C6 (defect of the code): the ellipse with centre \<open>(0, 0, 0)\<close>, major axis
  \<open>(2, 0, 0)\<close> and ratio 0.5, with one segment. The only triple is
  \<open>(2, 0)\<close>, \<open>(-2, 0)\<close>, \<open>(2, 0)\<close>: the fit divides by zero, the warning is logged,
  and the pass goes on to read the unbound \<open>cx\<close>: the call ends with UnboundLocalError
  and returns no arcs at all.
\<close>

theorem C6_degenerate_fit_raises:
  "ellipse_to_arcs [(''ELLIPSE:0'', [[0, 0, 0], [2, 0, 0], [0.5]])] 1 0 ''um''
     = ([''Divide by zero error''], Inl UnboundLocalError)"
proof -
  have pts: "collect (ellipse_point [0, 0, 0] 2 (0.5 * 2) ((360 / real_of_int 1) / 2))
               [0..<nat (2 * 1)] = Inr [[2, 0, 0], [- 2, 0, 0]]"
    using half_turn_point_0 half_turn_point_1 by (simp add: upt_2)
  have fc: "fit_center [[2, 0, 0], [- 2, 0, 0]] 0 = None"
    by (simp add: fit_center_def circumcenter_def)
  show ?thesis
    using pts
      fit_step_unbound [OF fc,
        of "\<lparr>center_xy = None, arc_index = 0, arcs = [], warnings = []\<rparr>" 1]
    by (simp add: ellipse_to_arcs_def ellipse_step_def conversion_factor_um ellipse_arcs_def)
qed

subsection \<open>ellipse-to-arcs: the centre of every arc\<close>

lemma fit_step_arcs:
  assumes "fit_step points cf index st = Inr st'"
  shows "\<exists>nm x y r. arcs st' = arcs st @ [(nm, [[x, y, 0], r])]"
proof (cases "fit_center points index")
  case None
  show ?thesis
  proof (cases "center_xy st")
    case unbound: None
    from fit_step_unbound [OF None unbound] assms show ?thesis by simp
  next
    case (Some c)
    obtain cx cy where "c = (cx, cy)" by (cases c)
    with Some fit_step_stale [OF None, of st cx cy cf] assms show ?thesis
      by (auto simp: fitted_arc_def Let_def)
  qed
next
  case (Some c)
  obtain cx cy where "c = (cx, cy)" by (cases c)
  with Some fit_step_fitted [of points index cx cy cf st] assms show ?thesis
    by (auto simp: fitted_arc_def Let_def)
qed

lemma fit_step_flat:
  assumes "fit_step points cf index st = Inr st'" "\<forall>a \<in> set (arcs st). flat_center a"
  shows "\<forall>a \<in> set (arcs st'). flat_center a"
proof -
  from fit_step_arcs [OF assms(1)] obtain nm x y r
    where "arcs st' = arcs st @ [(nm, [[x, y, 0], r])]" by blast
  with assms(2) show ?thesis
    by (auto simp: flat_center_def)
qed

lemma fit_loop_flat:
  assumes "fit_loop points cf is st = Inr st'" "\<forall>a \<in> set (arcs st). flat_center a"
  shows "\<forall>a \<in> set (arcs st'). flat_center a"
  using assms
proof (induction "is" arbitrary: st)
  case Nil
  then show ?case by simp
next
  case (Cons i "is")
  from Cons.prems(1) obtain st1 where s1: "fit_step points cf i st = Inr st1"
    and s2: "fit_loop points cf is st1 = Inr st'"
    by (auto split: sum.splits)
  from fit_step_flat [OF s1 Cons.prems(2)] have "\<forall>a \<in> set (arcs st1). flat_center a" .
  with Cons.IH [OF s2] show ?case by blast
qed

lemma ellipse_arcs_flat:
  assumes "ellipse_arcs c a b cf ang n st = Inr st'" "\<forall>a \<in> set (arcs st). flat_center a"
  shows "\<forall>a \<in> set (arcs st'). flat_center a"
  using assms by (auto simp: ellipse_arcs_def split: sum.splits dest: fit_loop_flat)

lemma ellipse_step_flat:
  assumes "ellipse_step e n sl u st = Inr (n', st')" "\<forall>a \<in> set (arcs st). flat_center a"
  shows "\<forall>a \<in> set (arcs st'). flat_center a"
  using assms
  by (auto simp: ellipse_step_def Let_def split: list.splits sum.splits if_splits
      dest: ellipse_arcs_flat)

lemma ellipses_loop_flat:
  assumes "ellipses_loop es n sl u st = Inr st'" "\<forall>a \<in> set (arcs st). flat_center a"
  shows "\<forall>a \<in> set (arcs st'). flat_center a"
  using assms
proof (induction es arbitrary: n st)
  case Nil
  then show ?case by simp
next
  case (Cons e es)
  from Cons.prems(1) obtain n1 st1 where s1: "ellipse_step e n sl u st = Inr (n1, st1)"
    and s2: "ellipses_loop es n1 sl u st1 = Inr st'"
    by (auto split: sum.splits)
  from ellipse_step_flat [OF s1 Cons.prems(2)] have "\<forall>a \<in> set (arcs st1). flat_center a" .
  with Cons.IH [OF s2] show ?case by blast
qed

text \<open>
  C10: whenever ellipse-to-arcs returns, every arc record it returns has a centre whose
  z-coordinate is exactly 0, for every input, whatever the z of the centres of the ellipses.
\<close>

theorem C10_arc_center_z_zero:
  assumes "snd (ellipse_to_arcs es n sl u) = Inr out"
  shows "\<forall>arc \<in> set out. \<exists>x y r. snd arc = [[x, y, 0], r]"
proof -
  from assms obtain st where
    "ellipses_loop es n sl u \<lparr>center_xy = None, arc_index = 0, arcs = [], warnings = []\<rparr>
       = Inr st"
    and out: "out = arcs st"
    by (auto simp: ellipse_to_arcs_def split: sum.splits prod.splits)
  then have "\<forall>a \<in> set (arcs st). flat_center a"
    by (auto dest!: ellipses_loop_flat)
  with out show ?thesis
    by (simp add: flat_center_def)
qed

text \<open>
  A run that returns arcs: the circle of radius 2 around \<open>(0, 0, 5)\<close> with three
  segments. The sampled points are at multiples of 60 degrees and every fit finds the centre
  \<open>(0, 0)\<close>.
\<close>

lemma trig_0: "cos (radians 0) = 1" "sin (radians 0) = 0"
  by (simp_all add: radians_def)

lemma trig_60: "cos (radians 60) = 1 / 2" "sin (radians 60) = sqrt 3 / 2"
proof -
  have "radians 60 = pi / 3" by (simp add: radians_def)
  then show "cos (radians 60) = 1 / 2" "sin (radians 60) = sqrt 3 / 2"
    by (simp_all only: cos_60 sin_60)
qed

lemma trig_120: "cos (radians 120) = - (1 / 2)" "sin (radians 120) = sqrt 3 / 2"
proof -
  have "radians 120 = pi - pi / 3" by (simp add: radians_def)
  then show "cos (radians 120) = - (1 / 2)" "sin (radians 120) = sqrt 3 / 2"
    by (simp_all only: cos_pi_minus sin_pi_minus cos_60 sin_60)
qed

lemma trig_180: "cos (radians 180) = - 1" "sin (radians 180) = 0"
  by (simp_all add: radians_def)

lemma trig_240: "cos (radians 240) = - (1 / 2)" "sin (radians 240) = - (sqrt 3 / 2)"
proof -
  have "radians 240 = pi / 3 + pi" by (simp add: radians_def)
  then show "cos (radians 240) = - (1 / 2)" "sin (radians 240) = - (sqrt 3 / 2)"
    by (simp_all only: cos_periodic_pi sin_periodic_pi cos_60 sin_60)
qed

lemma trig_300: "cos (radians 300) = 1 / 2" "sin (radians 300) = - (sqrt 3 / 2)"
proof -
  have "radians 300 = 2 * pi - pi / 3" by (simp add: radians_def)
  then show "cos (radians 300) = 1 / 2" "sin (radians 300) = - (sqrt 3 / 2)"
    by (simp_all only: cos_2pi_minus sin_2pi_minus cos_60 sin_60)
qed

lemma circle_point_0: "ellipse_point [0, 0, 5] 2 2 60 0 = Inr [2, 0, 5]"
  by (simp add: ellipse_point_def trig_0)

lemma circle_point_1: "ellipse_point [0, 0, 5] 2 2 60 (Suc 0) = Inr [1, sqrt 3, 5]"
  by (simp add: ellipse_point_def trig_60 power2_eq_square)

lemma circle_point_2: "ellipse_point [0, 0, 5] 2 2 60 2 = Inr [- 1, sqrt 3, 5]"
  by (simp add: ellipse_point_def trig_120 power2_eq_square)

lemma circle_point_3: "ellipse_point [0, 0, 5] 2 2 60 3 = Inr [- 2, 0, 5]"
  by (simp add: ellipse_point_def trig_180)

lemma circle_point_4: "ellipse_point [0, 0, 5] 2 2 60 4 = Inr [- 1, - sqrt 3, 5]"
  by (simp add: ellipse_point_def trig_240 power2_eq_square)

lemma circle_point_5: "ellipse_point [0, 0, 5] 2 2 60 5 = Inr [1, - sqrt 3, 5]"
  by (simp add: ellipse_point_def trig_300 power2_eq_square)

lemma circle_sampled:
  "collect (ellipse_point [0, 0, 5] 2 2 60) [0..<6] = Inr circle_points"
  by (simp add: upt_6 circle_point_0 circle_point_1 circle_point_2 circle_point_3
      circle_point_4 circle_point_5 circle_points_def)

lemma circle_center_0: "fit_center circle_points 0 = Some (0, 0)"
  by (simp add: fit_center_def circle_points_def circumcenter_def)

lemma circle_center_1: "fit_center circle_points (Suc 0) = Some (0, 0)"
  by (simp add: fit_center_def circle_points_def circumcenter_def)

lemma circle_center_2: "fit_center circle_points 2 = Some (0, 0)"
  by (simp add: fit_center_def circle_points_def circumcenter_def)

lemma circle_step_0:
  "fit_step circle_points cf 0 st =
     Inr (st\<lparr>center_xy := Some (0, 0), arc_index := arc_index st + 1,
             arcs := arcs st @ [fitted_arc 2 0 (- 1) (sqrt 3) 0 0 cf (arc_index st)]\<rparr>)"
  using fit_step_fitted [OF circle_center_0, of cf st] by (simp add: circle_points_def)

lemma circle_step_1:
  "fit_step circle_points cf (Suc 0) st =
     Inr (st\<lparr>center_xy := Some (0, 0), arc_index := arc_index st + 1,
             arcs := arcs st
               @ [fitted_arc (- 1) (sqrt 3) (- 1) (- sqrt 3) 0 0 cf (arc_index st)]\<rparr>)"
  using fit_step_fitted [OF circle_center_1, of cf st] by (simp add: circle_points_def)

lemma circle_step_2:
  "fit_step circle_points cf 2 st =
     Inr (st\<lparr>center_xy := Some (0, 0), arc_index := arc_index st + 1,
             arcs := arcs st @ [fitted_arc (- 1) (- sqrt 3) 2 0 0 0 cf (arc_index st)]\<rparr>)"
  using fit_step_fitted [OF circle_center_2, of cf st] by (simp add: circle_points_def)

lemma circle_run:
  "ellipse_to_arcs [(''ELLIPSE:0'', [[0, 0, 5], [2, 0, 0], [1]])] 3 0 ''um''
     = ([], Inr [fitted_arc 2 0 (- 1) (sqrt 3) 0 0 1 0,
                 fitted_arc (- 1) (sqrt 3) (- 1) (- sqrt 3) 0 0 1 1,
                 fitted_arc (- 1) (- sqrt 3) 2 0 0 0 1 2])"
  apply (simp add: ellipse_to_arcs_def ellipse_step_def conversion_factor_um ellipse_arcs_def
      circle_sampled upt_3 circle_step_0 circle_step_1 circle_step_2)
  apply (simp add: numeral_2_eq_2)
  done

theorem C10_arc_center_z_zero_witness:
  "snd (ellipse_to_arcs [(''ELLIPSE:0'', [[0, 0, 5], [2, 0, 0], [1]])] 3 0 ''um'')
     = Inr [fitted_arc 2 0 (- 1) (sqrt 3) 0 0 1 0,
            fitted_arc (- 1) (sqrt 3) (- 1) (- sqrt 3) 0 0 1 1,
            fitted_arc (- 1) (- sqrt 3) 2 0 0 0 1 2]
   \<and> snd (fitted_arc 2 0 (- 1) (sqrt 3) 0 0 1 0) ! 0 ! 2 = 0
   \<and> snd (fitted_arc (- 1) (sqrt 3) (- 1) (- sqrt 3) 0 0 1 1) ! 0 ! 2 = 0
   \<and> snd (fitted_arc (- 1) (- sqrt 3) 2 0 0 0 1 2) ! 0 ! 2 = 0"
proof -
  have run: "snd (ellipse_to_arcs [(''ELLIPSE:0'', [[0, 0, 5], [2, 0, 0], [1]])] 3 0 ''um'')
     = Inr [fitted_arc 2 0 (- 1) (sqrt 3) 0 0 1 0,
            fitted_arc (- 1) (sqrt 3) (- 1) (- sqrt 3) 0 0 1 1,
            fitted_arc (- 1) (- sqrt 3) 2 0 0 0 1 2]"
    by (simp add: circle_run)
  from run C10_arc_center_z_zero [OF run] show ?thesis by auto
qed

subsection \<open>The segmentation parameters of the three stages\<close>


























end
